theory Spec2Isabelle
  imports Main
begin

section \<open>The A. O. Smith sensor platform (sensor.py)\<close>

subsection \<open>Data as the platform sees it\<close>

text \<open>
  A propagated Python exception is a value of this type. \<open>KeyError\<close> carries the
  key that a dictionary lookup missed; \<open>ClientError\<close> stands for whatever the
  vendor client library raises from a blocking call.
\<close>

datatype error = KeyError string | ClientError string

text \<open>
  A sensor state is \<open>str | int | None\<close> in the source's annotations: the value
  proper is one of two alternatives and \<open>None\<close> is the absent option.
\<close>

datatype state_value = StrValue string | IntValue int

text \<open>
  Modelled from the spec: the host's constants and enumerations that sensor.py
  imports (\<open>PERCENTAGE\<close>, \<open>UnitOfEnergy\<close>, \<open>SensorDeviceClass\<close>,
  \<open>SensorStateClass\<close>) are declared outside the files at hand. Each is kept as an
  enumeration; only the members the platform names, and a few siblings, are listed.
\<close>

datatype UnitOfEnergy = WATT_HOUR | KILO_WATT_HOUR | MEGA_WATT_HOUR

datatype unit_of_measurement = PERCENTAGE | EnergyUnit UnitOfEnergy

datatype SensorDeviceClass = ENERGY | POWER | TEMPERATURE

datatype SensorStateClass = MEASUREMENT | TOTAL | TOTAL_INCREASING

text \<open>
  Modelled from the spec: the vendor library's device snapshot (py\_aosmith's
  \<open>Device\<close>) is not among the files at hand. The platform reads one path of it,
  \<open>device.status.hot_water_status\<close>; every other field lives in the records'
  extension part.
\<close>

record DeviceStatus =
  hot_water_status :: "state_value option"

record AOSmithDevice =
  status :: DeviceStatus

text \<open>
  A Python \<open>dict\<close> iterates over its keys in insertion order and holds each key
  once. It is an association list here; \<open>dict_ok\<close> is the well-formedness
  that every Python dictionary has.
\<close>

type_synonym ('k, 'v) dict = "('k \<times> 'v) list"

definition dict_keys :: "('k, 'v) dict \<Rightarrow> 'k list" where
  "dict_keys d = map fst d"

definition dict_ok :: "('k, 'v) dict \<Rightarrow> bool" where
  "dict_ok d = distinct (dict_keys d)"

definition dict_getitem :: "(string, 'v) dict \<Rightarrow> string \<Rightarrow> error + 'v" where
  "dict_getitem d k = (case map_of d k of None \<Rightarrow> Inl (KeyError k) | Some v \<Rightarrow> Inr v)"

text \<open>
  Modelled from the spec: the coordinators (coordinator.py) are external polling
  components. The status coordinator exposes a mapping from device identifier to device
  snapshot, the energy coordinator a mapping from device identifier to a numeric
  reading. The reading is a Python float that the platform only passes on, so its type
  is left open as \<open>'r\<close>. The runtime data of the config entry holds both
  coordinators.
\<close>

record AOSmithStatusCoordinator =
  status_data :: "(string, AOSmithDevice) dict"

record 'r AOSmithEnergyCoordinator =
  energy_data :: "(string, 'r) dict"

record 'r AOSmithData =
  status_coordinator :: AOSmithStatusCoordinator
  energy_coordinator :: "'r AOSmithEnergyCoordinator"

record 'r AOSmithConfigEntry =
  runtime_data :: "'r AOSmithData"

subsection \<open>Entity descriptions\<close>

record AOSmithStatusSensorEntityDescription =
  key :: string
  translation_key :: string
  native_unit_of_measurement :: "unit_of_measurement option"
  value_fn :: "AOSmithDevice \<Rightarrow> state_value option"

definition STATUS_ENTITY_DESCRIPTIONS :: "AOSmithStatusSensorEntityDescription list" where
  "STATUS_ENTITY_DESCRIPTIONS =
     [\<lparr> key = ''hot_water_availability'',
        translation_key = ''hot_water_availability'',
        native_unit_of_measurement = Some PERCENTAGE,
        value_fn = (\<lambda>device. hot_water_status (status device)) \<rparr>]"

subsection \<open>Entities\<close>

text \<open>
  Modelled from the spec: the base classes of entity.py are not among the files at
  hand. By the spec an entity holds a reference to the shared coordinator and the
  junction identifier, which the base constructor stores; the other fields are the ones
  sensor.py assigns. The coordinator is refreshed by the host behind the entity's back,
  so the entity keeps a reference and never a copy of the data: the reference is the
  selector that finds the coordinator in the runtime data, and every read goes through
  the runtime data of that moment.
\<close>

record 'r AOSmithStatusSensorEntity =
  status_entity_coordinator :: "'r AOSmithData \<Rightarrow> AOSmithStatusCoordinator"
  status_entity_junction_id :: string
  entity_description :: AOSmithStatusSensorEntityDescription
  status_entity_unique_id :: string

record 'r AOSmithEnergySensorEntity =
  energy_entity_coordinator :: "'r AOSmithData \<Rightarrow> 'r AOSmithEnergyCoordinator"
  energy_entity_junction_id :: string
  energy_entity_translation_key :: string
  energy_entity_device_class :: SensorDeviceClass
  energy_entity_state_class :: SensorStateClass
  energy_entity_native_unit_of_measurement :: unit_of_measurement
  energy_entity_suggested_display_precision :: nat
  energy_entity_unique_id :: string

text \<open>\<open>AOSmithStatusSensorEntity.__init__\<close>\<close>

definition AOSmithStatusSensorEntity_init ::
  "('r AOSmithData \<Rightarrow> AOSmithStatusCoordinator) \<Rightarrow> AOSmithStatusSensorEntityDescription
     \<Rightarrow> string \<Rightarrow> 'r AOSmithStatusSensorEntity" where
  "AOSmithStatusSensorEntity_init coordinator description junction_id =
     \<lparr> status_entity_coordinator = coordinator,
       status_entity_junction_id = junction_id,
       entity_description = description,
       status_entity_unique_id = key description @ ''_'' @ junction_id \<rparr>"

text \<open>\<open>AOSmithEnergySensorEntity.__init__\<close>, with the class attributes it inherits.\<close>

definition AOSmithEnergySensorEntity_init ::
  "('r AOSmithData \<Rightarrow> 'r AOSmithEnergyCoordinator) \<Rightarrow> string \<Rightarrow> 'r AOSmithEnergySensorEntity" where
  "AOSmithEnergySensorEntity_init coordinator junction_id =
     \<lparr> energy_entity_coordinator = coordinator,
       energy_entity_junction_id = junction_id,
       energy_entity_translation_key = ''energy_usage'',
       energy_entity_device_class = ENERGY,
       energy_entity_state_class = TOTAL_INCREASING,
       energy_entity_native_unit_of_measurement = EnergyUnit KILO_WATT_HOUR,
       energy_entity_suggested_display_precision = 1,
       energy_entity_unique_id = ''energy_usage_'' @ junction_id \<rparr>"

text \<open>
  Modelled from the spec: \<open>AOSmithStatusEntity.device\<close> (entity.py) is the
  entity's slice of the status coordinator's latest snapshot, looked up by the junction
  identifier. A Python dictionary lookup raises \<open>KeyError\<close> on a missing key.
\<close>

definition device ::
  "'r AOSmithData \<Rightarrow> 'r AOSmithStatusSensorEntity \<Rightarrow> error + AOSmithDevice" where
  "device rd self =
     dict_getitem (status_data (status_entity_coordinator self rd)) (status_entity_junction_id self)"

text \<open>
  Modelled from the spec: \<open>AOSmithEnergyEntity.energy_usage\<close> (entity.py) is the
  energy coordinator's reading for the entity's junction identifier.
\<close>

definition energy_usage ::
  "'r AOSmithData \<Rightarrow> 'r AOSmithEnergySensorEntity \<Rightarrow> error + 'r" where
  "energy_usage rd self =
     dict_getitem (energy_data (energy_entity_coordinator self rd)) (energy_entity_junction_id self)"

text \<open>
  \<open>AOSmithStatusSensorEntity.native_value\<close>: a property, so a read. It takes the
  runtime data of the moment and returns a value only; the entity is not returned
  because the property assigns nothing.
\<close>

definition status_native_value ::
  "'r AOSmithData \<Rightarrow> 'r AOSmithStatusSensorEntity \<Rightarrow> error + state_value option" where
  "status_native_value rd self =
     (case device rd self of
        Inl e \<Rightarrow> Inl e
      | Inr d \<Rightarrow> Inr (value_fn (entity_description self) d))"

text \<open>\<open>AOSmithEnergySensorEntity.native_value\<close>\<close>

definition energy_native_value ::
  "'r AOSmithData \<Rightarrow> 'r AOSmithEnergySensorEntity \<Rightarrow> error + 'r" where
  "energy_native_value rd self = energy_usage rd self"

subsection \<open>Platform setup\<close>

datatype 'r entity =
    StatusSensor "'r AOSmithStatusSensorEntity"
  | EnergySensor "'r AOSmithEnergySensorEntity"

text \<open>
  \<open>async_setup_entry\<close>. The host state \<open>hass\<close> is threaded through the
  host-provided callback \<open>async_add_entities\<close>, which is called twice: first with
  the status sensors (the outer loop over the descriptions, the inner loop over the
  keys of the status coordinator's data), then with the energy sensors.
\<close>

definition async_setup_entry ::
  "'h \<Rightarrow> 'r AOSmithConfigEntry \<Rightarrow> ('r entity list \<Rightarrow> 'h \<Rightarrow> 'h) \<Rightarrow> 'h" where
  "async_setup_entry hass entry async_add_entities =
     (let data = runtime_data entry;
          hass1 = async_add_entities
            (concat (map (\<lambda>description.
               map (\<lambda>junction_id.
                  StatusSensor (AOSmithStatusSensorEntity_init status_coordinator description junction_id))
                 (dict_keys (status_data (status_coordinator data))))
               STATUS_ENTITY_DESCRIPTIONS))
            hass
      in async_add_entities
           (map (\<lambda>junction_id.
              EnergySensor (AOSmithEnergySensorEntity_init energy_coordinator junction_id))
             (dict_keys (status_data (status_coordinator data))))
           hass1)"

section \<open>The SignalRGB light entity (light.py, as its tests and the spec describe it)\<close>

text \<open>
  Modelled from the spec: const.py of the SignalRGB component, which names the default
  effect and the all-off sentinel, is not among the files at hand and the spec gives
  neither string. Both are parameters of every operation.
\<close>

record signalrgb_const =
  ALL_OFF_EFFECT :: string
  DEFAULT_EFFECT :: string

text \<open>
  Modelled from the spec: the vendor client is an external object with three
  synchronous operations: list the effects, get the current effect, apply an effect by
  name. An effect carries its name as \<open>effect.attributes.name\<close> (so the tests build
  it). The client of one moment is the record of what each operation would answer then;
  an operation that raises answers \<open>Inl\<close>.
\<close>

datatype effect = Effect (attributes_name: string)

record SignalRGBClient =
  get_effects :: "error + effect list"
  get_current_effect :: "error + effect"
  apply_effect_by_name :: "string \<Rightarrow> error + unit"

text \<open>
  A blocking vendor call is handed to the host's executor; the tests inspect the jobs
  handed over. The jobs that returned are logged in order.
\<close>

datatype executor_job = GetEffects | GetCurrentEffect | ApplyEffectByName string

text \<open>
  Modelled from the spec: light.py is not among the files at hand. The light state is
  the three fields the spec lists (on/off flag, current effect name or absent, list of
  available effect names), together with the log of executor jobs.
\<close>

record SignalRGBLight =
  is_on :: bool
  effect :: "string option"
  effect_list :: "string list"
  executor_jobs :: "executor_job list"

text \<open>
  Modelled from the spec: \<open>_apply_effect\<close> of the absent light.py. Applying an
  effect by name issues the corresponding blocking call and updates the local state
  optimistically, with no confirmation round-trip. A
  failure of the call propagates to the host (\<open>Inl\<close>); the spec says nothing of the
  entity after a propagated failure, and neither does the model.
\<close>

definition apply_effect ::
  "SignalRGBClient \<Rightarrow> SignalRGBLight \<Rightarrow> string \<Rightarrow> error + SignalRGBLight" where
  "apply_effect client self name =
     (case apply_effect_by_name client name of
        Inl e \<Rightarrow> Inl e
      | Inr _ \<Rightarrow>
          Inr (self\<lparr> executor_jobs := executor_jobs self @ [ApplyEffectByName name],
                    effect := Some name \<rparr>))"

text \<open>
  Modelled from the spec: \<open>async_turn_on\<close> of the absent light.py. Turning on
  applies the default effect name and sets the on-state.
\<close>

definition async_turn_on ::
  "signalrgb_const \<Rightarrow> SignalRGBClient \<Rightarrow> SignalRGBLight \<Rightarrow> error + SignalRGBLight" where
  "async_turn_on const client self =
     (case apply_effect client self (DEFAULT_EFFECT const) of
        Inl e \<Rightarrow> Inl e
      | Inr self1 \<Rightarrow> Inr (self1\<lparr> is_on := True \<rparr>))"

text \<open>
  Modelled from the spec: \<open>async_turn_off\<close> of the absent light.py. Turning off
  applies the all-off effect name the same way and clears the on-state.
\<close>

definition async_turn_off ::
  "signalrgb_const \<Rightarrow> SignalRGBClient \<Rightarrow> SignalRGBLight \<Rightarrow> error + SignalRGBLight" where
  "async_turn_off const client self =
     (case apply_effect client self (ALL_OFF_EFFECT const) of
        Inl e \<Rightarrow> Inl e
      | Inr self1 \<Rightarrow> Inr (self1\<lparr> is_on := False \<rparr>))"

text \<open>
  Modelled from the spec: \<open>async_update\<close> of the absent light.py. An update
  refreshes the list of available effects only while
  the cached list is empty, then polls the current effect and sets the on-state by
  comparing its name with the all-off sentinel. The order of the two calls is the one
  the tests' answer lists fix: the effects first, the current effect second.
\<close>

definition async_update ::
  "signalrgb_const \<Rightarrow> SignalRGBClient \<Rightarrow> SignalRGBLight \<Rightarrow> error + SignalRGBLight" where
  "async_update const client self =
     (case (if effect_list self = [] then
              (case get_effects client of
                 Inl e \<Rightarrow> Inl e
               | Inr effects \<Rightarrow>
                   Inr (self\<lparr> executor_jobs := executor_jobs self @ [GetEffects],
                             effect_list := map attributes_name effects \<rparr>))
            else Inr self) of
        Inl e \<Rightarrow> Inl e
      | Inr self1 \<Rightarrow>
          (case get_current_effect client of
             Inl e \<Rightarrow> Inl e
           | Inr current \<Rightarrow>
               Inr (self1\<lparr> executor_jobs := executor_jobs self1 @ [GetCurrentEffect],
                          effect := Some (attributes_name current),
                          is_on := (attributes_name current \<noteq> ALL_OFF_EFFECT const) \<rparr>)))"

text \<open>
  Modelled from the spec: the host polls the entity, one update cycle after the other.
  Each cycle meets the client of its moment; a run is followed up to the first failure
  that propagates.
\<close>

fun async_update_cycles ::
  "signalrgb_const \<Rightarrow> SignalRGBClient list \<Rightarrow> SignalRGBLight \<Rightarrow> error + SignalRGBLight" where
  "async_update_cycles const [] self = Inr self"
| "async_update_cycles const (client # clients) self =
     (case async_update const client self of
        Inl e \<Rightarrow> Inl e
      | Inr self1 \<Rightarrow> async_update_cycles const clients self1)"

section \<open>Sample inputs\<close>

text \<open>
  One account with two water heaters. \<open>sample_data\<close> is the runtime data at one
  moment, \<open>sample_data_refreshed\<close> the same after the coordinators polled again: the
  hot-water reading of \<open>J1\<close> moved and its energy reading went down. The energy
  coordinator knows \<open>J1\<close> and \<open>J3\<close>, the status coordinator \<open>J1\<close> and
  \<open>J2\<close>.
\<close>

definition sample_data :: "int AOSmithData" where
  "sample_data =
     \<lparr> status_coordinator = \<lparr> status_data =
         [(''J1'', \<lparr> status = \<lparr> hot_water_status = Some (IntValue 80) \<rparr> \<rparr>),
          (''J2'', \<lparr> status = \<lparr> hot_water_status = None \<rparr> \<rparr>)] \<rparr>,
       energy_coordinator = \<lparr> energy_data = [(''J1'', 5), (''J3'', 7)] \<rparr> \<rparr>"

definition sample_data_refreshed :: "int AOSmithData" where
  "sample_data_refreshed =
     \<lparr> status_coordinator = \<lparr> status_data =
         [(''J1'', \<lparr> status = \<lparr> hot_water_status = Some (IntValue 75) \<rparr> \<rparr>),
          (''J2'', \<lparr> status = \<lparr> hot_water_status = None \<rparr> \<rparr>)] \<rparr>,
       energy_coordinator = \<lparr> energy_data = [(''J1'', 3), (''J3'', 7)] \<rparr> \<rparr>"

definition sample_entry :: "int AOSmithConfigEntry" where
  "sample_entry = \<lparr> runtime_data = sample_data \<rparr>"

definition hot_water_description :: AOSmithStatusSensorEntityDescription where
  "hot_water_description = hd STATUS_ENTITY_DESCRIPTIONS"

text \<open>
  A light as the tests build it, two sample effect names for the constants, a client
  that offers one effect, and a later client that reports no effects and the all-off
  effect as current.
\<close>

definition sample_const :: signalrgb_const where
  "sample_const = \<lparr> ALL_OFF_EFFECT = ''All Off'', DEFAULT_EFFECT = ''Default'' \<rparr>"

definition sample_light :: SignalRGBLight where
  "sample_light = \<lparr> is_on = False, effect = None, effect_list = [], executor_jobs = [] \<rparr>"

definition sample_client :: SignalRGBClient where
  "sample_client =
     \<lparr> get_effects = Inr [Effect ''Test Effect''],
       get_current_effect = Inr (Effect ''Test Effect''),
       apply_effect_by_name = (\<lambda>name. Inr ()) \<rparr>"

definition sample_client_later :: SignalRGBClient where
  "sample_client_later =
     \<lparr> get_effects = Inr [],
       get_current_effect = Inr (Effect ''All Off''),
       apply_effect_by_name = (\<lambda>name. Inr ()) \<rparr>"

section \<open>Unique identifiers\<close>

text \<open>
  C6. The unique identifier of a status sensor is its description's key, an underscore
  and the junction identifier; that of the energy sensor is the fixed name
  \<open>energy_usage\<close>, an underscore and the junction identifier. Both are functions
  of these two strings alone (the coordinator does not enter), and with the description
  fixed, two entities have the same unique identifier exactly when they were built from
  the same junction identifier.
\<close>

theorem unique_id_deterministic_and_injective:
  "status_entity_unique_id (AOSmithStatusSensorEntity_init c d j) = key d @ ''_'' @ j
   \<and> energy_entity_unique_id (AOSmithEnergySensorEntity_init c' j) = ''energy_usage_'' @ j
   \<and> ((status_entity_unique_id (AOSmithStatusSensorEntity_init c1 d j1)
        = status_entity_unique_id (AOSmithStatusSensorEntity_init c2 d j2)) = (j1 = j2))
   \<and> ((energy_entity_unique_id (AOSmithEnergySensorEntity_init c3 j1)
        = energy_entity_unique_id (AOSmithEnergySensorEntity_init c4 j2)) = (j1 = j2))"
  by (simp add: AOSmithStatusSensorEntity_init_def AOSmithEnergySensorEntity_init_def)

theorem unique_id_witness:
  "status_entity_unique_id
      (AOSmithStatusSensorEntity_init status_coordinator hot_water_description ''J1'')
     = ''hot_water_availability_J1''
   \<and> energy_entity_unique_id (AOSmithEnergySensorEntity_init energy_coordinator ''J1'')
     = ''energy_usage_J1''
   \<and> status_entity_unique_id
        (AOSmithStatusSensorEntity_init status_coordinator hot_water_description ''J1'')
     \<noteq> status_entity_unique_id
        (AOSmithStatusSensorEntity_init status_coordinator hot_water_description ''J2'')
   \<and> energy_entity_unique_id (AOSmithEnergySensorEntity_init energy_coordinator ''J1'')
     \<noteq> energy_entity_unique_id (AOSmithEnergySensorEntity_init energy_coordinator ''J2'')"
  using unique_id_deterministic_and_injective
    [of status_coordinator hot_water_description "''J1''" energy_coordinator
        status_coordinator "''J1''" status_coordinator "''J2''"
        energy_coordinator energy_coordinator]
  by (simp add: hot_water_description_def STATUS_ENTITY_DESCRIPTIONS_def)

section \<open>Reading the sensors\<close>

text \<open>
  C7. A read of the status sensor's native value against the runtime data of the moment
  returns the description's extraction function applied to the device that the status
  coordinator holds under the entity's junction identifier at that moment. The read is
  a function of that runtime data and of the entity, returns a value and nothing else,
  so nothing is cached and the entity is left as it was. When the extraction function
  yields no value the read returns the absent value normally, not an error. The one
  description of the platform extracts the hot-water status.
\<close>

theorem status_native_value_reads_latest_snapshot:
  assumes "map_of (status_data (status_entity_coordinator self rd)) (status_entity_junction_id self)
             = Some d"
  shows "status_native_value rd self = Inr (value_fn (entity_description self) d)
     \<and> (value_fn (entity_description self) d = None \<longrightarrow> status_native_value rd self = Inr None)
     \<and> (\<forall>description \<in> set STATUS_ENTITY_DESCRIPTIONS.
           value_fn description d = hot_water_status (status d))"
  using assms
  by (simp add: status_native_value_def device_def dict_getitem_def STATUS_ENTITY_DESCRIPTIONS_def)

theorem status_native_value_witness:
  "status_native_value sample_data
      (AOSmithStatusSensorEntity_init status_coordinator hot_water_description ''J1'')
     = Inr (Some (IntValue 80))
   \<and> status_native_value sample_data_refreshed
      (AOSmithStatusSensorEntity_init status_coordinator hot_water_description ''J1'')
     = Inr (Some (IntValue 75))
   \<and> status_native_value sample_data
      (AOSmithStatusSensorEntity_init status_coordinator hot_water_description ''J2'')
     = Inr None"
  using
    status_native_value_reads_latest_snapshot
      [of "AOSmithStatusSensorEntity_init status_coordinator hot_water_description ''J1''"
          sample_data "\<lparr> status = \<lparr> hot_water_status = Some (IntValue 80) \<rparr> \<rparr>"]
    status_native_value_reads_latest_snapshot
      [of "AOSmithStatusSensorEntity_init status_coordinator hot_water_description ''J1''"
          sample_data_refreshed "\<lparr> status = \<lparr> hot_water_status = Some (IntValue 75) \<rparr> \<rparr>"]
    status_native_value_reads_latest_snapshot
      [of "AOSmithStatusSensorEntity_init status_coordinator hot_water_description ''J2''"
          sample_data "\<lparr> status = \<lparr> hot_water_status = None \<rparr> \<rparr>"]
  by (simp add: sample_data_def sample_data_refreshed_def hot_water_description_def
        AOSmithStatusSensorEntity_init_def STATUS_ENTITY_DESCRIPTIONS_def)

text \<open>
  C8. The energy sensor returns the reading that the energy coordinator holds under the
  entity's junction identifier as it is, whatever its value: nothing compares it with an
  earlier reading. The entity is tagged with kilowatt-hour as native unit, a suggested
  display precision of 1 and the total-increasing state class.
\<close>

theorem energy_sensor_passes_reading_on:
  assumes "map_of (energy_data (c rd)) j = Some v"
  shows "energy_native_value rd (AOSmithEnergySensorEntity_init c j) = Inr v
     \<and> energy_entity_native_unit_of_measurement (AOSmithEnergySensorEntity_init c j)
         = EnergyUnit KILO_WATT_HOUR
     \<and> energy_entity_suggested_display_precision (AOSmithEnergySensorEntity_init c j) = 1
     \<and> energy_entity_state_class (AOSmithEnergySensorEntity_init c j) = TOTAL_INCREASING"
  using assms
  by (simp add: energy_native_value_def energy_usage_def dict_getitem_def
        AOSmithEnergySensorEntity_init_def)

theorem energy_sensor_witness:
  "energy_native_value sample_data (AOSmithEnergySensorEntity_init energy_coordinator ''J1'')
     = Inr 5
   \<and> energy_native_value sample_data_refreshed
        (AOSmithEnergySensorEntity_init energy_coordinator ''J1'')
     = Inr 3
   \<and> energy_entity_native_unit_of_measurement
        (AOSmithEnergySensorEntity_init energy_coordinator ''J1'' :: int AOSmithEnergySensorEntity)
     = EnergyUnit KILO_WATT_HOUR
   \<and> energy_entity_suggested_display_precision
        (AOSmithEnergySensorEntity_init energy_coordinator ''J1'' :: int AOSmithEnergySensorEntity)
     = 1
   \<and> energy_entity_state_class
        (AOSmithEnergySensorEntity_init energy_coordinator ''J1'' :: int AOSmithEnergySensorEntity)
     = TOTAL_INCREASING"
  using
    energy_sensor_passes_reading_on [of energy_coordinator sample_data "''J1''" 5]
    energy_sensor_passes_reading_on [of energy_coordinator sample_data_refreshed "''J1''" 3]
  by (simp add: sample_data_def sample_data_refreshed_def)

section \<open>Platform setup\<close>

lemma status_init_inj:
  "(AOSmithStatusSensorEntity_init c d j = AOSmithStatusSensorEntity_init c d' j')
     = (d = d' \<and> j = j')"
  by (auto simp add: AOSmithStatusSensorEntity_init_def)

lemma energy_init_inj:
  "(AOSmithEnergySensorEntity_init c j = AOSmithEnergySensorEntity_init c j') = (j = j')"
  by (auto simp add: AOSmithEnergySensorEntity_init_def)

lemma distinct_map_status:
  "distinct ks \<Longrightarrow>
   distinct (map (\<lambda>j. StatusSensor (AOSmithStatusSensorEntity_init c d j)) ks)"
  by (simp add: distinct_map inj_on_def status_init_inj)

lemma distinct_map_energy:
  "distinct ks \<Longrightarrow>
   distinct (map (\<lambda>j. EnergySensor (AOSmithEnergySensorEntity_init c j)) ks)"
  by (simp add: distinct_map inj_on_def energy_init_inj)

lemma async_setup_entry_calls:
  "async_setup_entry h entry add =
     add (map (\<lambda>j. EnergySensor (AOSmithEnergySensorEntity_init energy_coordinator j))
            (dict_keys (status_data (status_coordinator (runtime_data entry)))))
       (add (concat (map (\<lambda>d.
                map (\<lambda>j. StatusSensor (AOSmithStatusSensorEntity_init status_coordinator d j))
                  (dict_keys (status_data (status_coordinator (runtime_data entry)))))
              STATUS_ENTITY_DESCRIPTIONS)) h)"
  by (simp add: async_setup_entry_def Let_def)

text \<open>
  C9. Whatever callback the host provides, setup calls it twice: once with the status
  sensors and once with the energy sensors. The status sensors are the entities built
  from the status coordinator for the pairs of a description of the platform and a key
  of the status coordinator's data, each pair once (no entity twice, as many entities
  as pairs); the energy sensors are the entities built from the energy coordinator for
  the keys of the status coordinator's data, each key once.
\<close>

theorem setup_one_entity_per_pair:
  assumes "dict_ok (status_data (status_coordinator (runtime_data entry)))"
  shows "\<exists>status_entities energy_entities.
     (\<forall>async_add_entities hass.
         async_setup_entry hass entry async_add_entities
           = async_add_entities energy_entities (async_add_entities status_entities hass))
   \<and> distinct status_entities
   \<and> length status_entities
        = length STATUS_ENTITY_DESCRIPTIONS
          * length (dict_keys (status_data (status_coordinator (runtime_data entry))))
   \<and> set status_entities
        = (\<lambda>(d, j). StatusSensor (AOSmithStatusSensorEntity_init status_coordinator d j))
            ` (set STATUS_ENTITY_DESCRIPTIONS
                \<times> set (dict_keys (status_data (status_coordinator (runtime_data entry)))))
   \<and> distinct energy_entities
   \<and> length energy_entities
        = length (dict_keys (status_data (status_coordinator (runtime_data entry))))
   \<and> set energy_entities
        = (\<lambda>j. EnergySensor (AOSmithEnergySensorEntity_init energy_coordinator j))
            ` set (dict_keys (status_data (status_coordinator (runtime_data entry))))"
proof -
  let ?ks = "dict_keys (status_data (status_coordinator (runtime_data entry)))"
  let ?ss = "concat (map (\<lambda>d.
                map (\<lambda>j. StatusSensor (AOSmithStatusSensorEntity_init status_coordinator d j)) ?ks)
              STATUS_ENTITY_DESCRIPTIONS) :: 'a entity list"
  let ?es = "map (\<lambda>j. EnergySensor (AOSmithEnergySensorEntity_init energy_coordinator j)) ?ks
               :: 'a entity list"
  have ks: "distinct ?ks"
    using assms by (simp add: dict_ok_def)
  have calls: "\<forall>add h. async_setup_entry h entry add = add ?es (add ?ss h)"
    by (simp add: async_setup_entry_calls)
  have ds: "distinct ?ss"
    using distinct_map_status [OF ks] by (simp add: STATUS_ENTITY_DESCRIPTIONS_def)
  have ls: "length ?ss = length STATUS_ENTITY_DESCRIPTIONS * length ?ks"
    by (simp add: STATUS_ENTITY_DESCRIPTIONS_def)
  have ss: "set ?ss
      = (\<lambda>(d, j). StatusSensor (AOSmithStatusSensorEntity_init status_coordinator d j))
          ` (set STATUS_ENTITY_DESCRIPTIONS \<times> set ?ks)"
    by (auto simp add: STATUS_ENTITY_DESCRIPTIONS_def)
  have de: "distinct ?es"
    using distinct_map_energy [OF ks] .
  have le: "length ?es = length ?ks"
    by simp
  have se: "set ?es
      = (\<lambda>j. EnergySensor (AOSmithEnergySensorEntity_init energy_coordinator j)) ` set ?ks"
    by simp
  from calls ds ls ss de le se show ?thesis
    by blast
qed

theorem setup_one_entity_per_pair_witness:
  "dict_ok (status_data (status_coordinator (runtime_data sample_entry)))
   \<and> (\<exists>status_entities energy_entities.
     (\<forall>async_add_entities (hass :: int entity list list).
         async_setup_entry hass sample_entry async_add_entities
           = async_add_entities energy_entities (async_add_entities status_entities hass))
   \<and> distinct status_entities
   \<and> length status_entities
        = length STATUS_ENTITY_DESCRIPTIONS
          * length (dict_keys (status_data (status_coordinator (runtime_data sample_entry))))
   \<and> set status_entities
        = (\<lambda>(d, j). StatusSensor (AOSmithStatusSensorEntity_init status_coordinator d j))
            ` (set STATUS_ENTITY_DESCRIPTIONS
                \<times> set (dict_keys (status_data (status_coordinator (runtime_data sample_entry)))))
   \<and> distinct energy_entities
   \<and> length energy_entities
        = length (dict_keys (status_data (status_coordinator (runtime_data sample_entry))))
   \<and> set energy_entities
        = (\<lambda>j. EnergySensor (AOSmithEnergySensorEntity_init energy_coordinator j))
            ` set (dict_keys (status_data (status_coordinator (runtime_data sample_entry)))))
   \<and> length STATUS_ENTITY_DESCRIPTIONS
          * length (dict_keys (status_data (status_coordinator (runtime_data sample_entry)))) = 2
   \<and> async_setup_entry [] sample_entry (\<lambda>entities hass. hass @ [entities])
       = [[StatusSensor (AOSmithStatusSensorEntity_init status_coordinator hot_water_description ''J1''),
           StatusSensor (AOSmithStatusSensorEntity_init status_coordinator hot_water_description ''J2'')],
          [EnergySensor (AOSmithEnergySensorEntity_init energy_coordinator ''J1''),
           EnergySensor (AOSmithEnergySensorEntity_init energy_coordinator ''J2'')]]"
proof -
  have ok: "dict_ok (status_data (status_coordinator (runtime_data sample_entry)))"
    by (simp add: dict_ok_def dict_keys_def sample_entry_def sample_data_def)
  have lens: "length STATUS_ENTITY_DESCRIPTIONS
          * length (dict_keys (status_data (status_coordinator (runtime_data sample_entry)))) = 2"
    by (simp add: STATUS_ENTITY_DESCRIPTIONS_def dict_keys_def sample_entry_def sample_data_def)
  have run: "async_setup_entry [] sample_entry (\<lambda>entities hass. hass @ [entities])
       = [[StatusSensor (AOSmithStatusSensorEntity_init status_coordinator hot_water_description ''J1''),
           StatusSensor (AOSmithStatusSensorEntity_init status_coordinator hot_water_description ''J2'')],
          [EnergySensor (AOSmithEnergySensorEntity_init energy_coordinator ''J1''),
           EnergySensor (AOSmithEnergySensorEntity_init energy_coordinator ''J2'')]]"
    by (simp add: async_setup_entry_calls dict_keys_def sample_entry_def sample_data_def
          hot_water_description_def STATUS_ENTITY_DESCRIPTIONS_def)
  show ?thesis
    apply (rule conjI)
     apply (rule ok)
    apply (rule conjI)
     apply (rule setup_one_entity_per_pair [OF ok])
    apply (rule conjI)
     apply (rule lens)
    apply (rule run)
    done
qed

text \<open>
  C10. The energy sensors follow the status coordinator's data. Setup registers the same
  entities whatever energy coordinator the runtime data holds, and an energy sensor with
  junction identifier \<open>j\<close> is registered exactly when \<open>j\<close> is a key of the
  status coordinator's data: also when the energy coordinator has no reading for
  \<open>j\<close>, and not when \<open>j\<close> is a key of the energy coordinator's data only.
\<close>

theorem energy_entities_follow_status_data:
  "\<exists>status_entities energy_entities.
     (\<forall>async_add_entities hass energy.
         async_setup_entry hass
            (entry\<lparr>runtime_data := (runtime_data entry)\<lparr>energy_coordinator := energy\<rparr>\<rparr>)
            async_add_entities
           = async_add_entities energy_entities (async_add_entities status_entities hass))
   \<and> (\<forall>j. (\<exists>e. EnergySensor e \<in> set energy_entities \<and> energy_entity_junction_id e = j)
           = (j \<in> set (dict_keys (status_data (status_coordinator (runtime_data entry))))))"
proof -
  let ?ks = "dict_keys (status_data (status_coordinator (runtime_data entry)))"
  let ?ss = "concat (map (\<lambda>d.
                map (\<lambda>j. StatusSensor (AOSmithStatusSensorEntity_init status_coordinator d j)) ?ks)
              STATUS_ENTITY_DESCRIPTIONS) :: 'a entity list"
  let ?es = "map (\<lambda>j. EnergySensor (AOSmithEnergySensorEntity_init energy_coordinator j)) ?ks
               :: 'a entity list"
  have calls: "\<forall>add h energy.
      async_setup_entry h
        (entry\<lparr>runtime_data := (runtime_data entry)\<lparr>energy_coordinator := energy\<rparr>\<rparr>) add
        = add ?es (add ?ss h)"
    by (simp add: async_setup_entry_calls)
  have ids: "\<forall>j. (\<exists>e. EnergySensor e \<in> set ?es \<and> energy_entity_junction_id e = j)
                = (j \<in> set ?ks)"
    by (auto simp add: AOSmithEnergySensorEntity_init_def)
  from calls ids show ?thesis
    by blast
qed

theorem energy_entities_follow_status_data_witness:
  "''J2'' \<notin> set (dict_keys (energy_data (energy_coordinator (runtime_data sample_entry))))
   \<and> ''J3'' \<in> set (dict_keys (energy_data (energy_coordinator (runtime_data sample_entry))))
   \<and> (\<exists>status_entities energy_entities.
         (\<forall>async_add_entities (hass :: int entity list list).
             async_setup_entry hass sample_entry async_add_entities
               = async_add_entities energy_entities (async_add_entities status_entities hass))
       \<and> (\<exists>e. EnergySensor e \<in> set energy_entities \<and> energy_entity_junction_id e = ''J2'')
       \<and> \<not> (\<exists>e. EnergySensor e \<in> set energy_entities \<and> energy_entity_junction_id e = ''J3''))"
proof -
  have keys: "''J2'' \<notin> set (dict_keys (energy_data (energy_coordinator (runtime_data sample_entry))))"
      "''J3'' \<in> set (dict_keys (energy_data (energy_coordinator (runtime_data sample_entry))))"
      "''J2'' \<in> set (dict_keys (status_data (status_coordinator (runtime_data sample_entry))))"
      "''J3'' \<notin> set (dict_keys (status_data (status_coordinator (runtime_data sample_entry))))"
    by (simp_all add: dict_keys_def sample_entry_def sample_data_def)
  have same: "sample_entry\<lparr>runtime_data :=
      (runtime_data sample_entry)\<lparr>energy_coordinator :=
         energy_coordinator (runtime_data sample_entry)\<rparr>\<rparr> = sample_entry"
    by simp
  have ex: "\<exists>status_entities energy_entities.
         (\<forall>async_add_entities (hass :: int entity list list).
             async_setup_entry hass sample_entry async_add_entities
               = async_add_entities energy_entities (async_add_entities status_entities hass))
       \<and> (\<exists>e. EnergySensor e \<in> set energy_entities \<and> energy_entity_junction_id e = ''J2'')
       \<and> \<not> (\<exists>e. EnergySensor e \<in> set energy_entities \<and> energy_entity_junction_id e = ''J3'')"
    using energy_entities_follow_status_data [of sample_entry]
  proof (elim exE conjE)
    fix ss es :: "int entity list"
    assume calls: "\<forall>add (h :: int entity list list) energy.
        async_setup_entry h
          (sample_entry\<lparr>runtime_data := (runtime_data sample_entry)\<lparr>energy_coordinator := energy\<rparr>\<rparr>) add
          = add es (add ss h)"
      and ids: "\<forall>j. (\<exists>e. EnergySensor e \<in> set es \<and> energy_entity_junction_id e = j)
                = (j \<in> set (dict_keys (status_data (status_coordinator (runtime_data sample_entry)))))"
    have calls': "\<forall>add (h :: int entity list list). async_setup_entry h sample_entry add = add es (add ss h)"
    proof (intro allI)
      fix add :: "int entity list \<Rightarrow> int entity list list \<Rightarrow> int entity list list"
        and h :: "int entity list list"
      from calls have "async_setup_entry h
          (sample_entry\<lparr>runtime_data := (runtime_data sample_entry)\<lparr>energy_coordinator :=
             energy_coordinator (runtime_data sample_entry)\<rparr>\<rparr>) add = add es (add ss h)"
        by (rule allE [of _ add], elim allE [of _ h] allE [of _ "energy_coordinator (runtime_data sample_entry)"])
      then show "async_setup_entry h sample_entry add = add es (add ss h)"
        by (simp only: same)
    qed
    from ids keys(3) have in2: "\<exists>e. EnergySensor e \<in> set es \<and> energy_entity_junction_id e = ''J2''"
      by simp
    from ids keys(4) have out3: "\<not> (\<exists>e. EnergySensor e \<in> set es \<and> energy_entity_junction_id e = ''J3'')"
      by simp
    from calls' in2 out3 show ?thesis
      by (intro exI [of _ ss] exI [of _ es] conjI)
  qed
  from keys(1) keys(2) ex show ?thesis
    by (intro conjI)
qed

section \<open>The light entity\<close>

lemma async_update_cached:
  assumes "effect_list s \<noteq> []" and "get_current_effect c = Inr cur"
  shows "async_update k c s =
     Inr (s\<lparr> executor_jobs := executor_jobs s @ [GetCurrentEffect],
             effect := Some (attributes_name cur),
             is_on := (attributes_name cur \<noteq> ALL_OFF_EFFECT k) \<rparr>)"
  using assms by (simp add: async_update_def)

lemma async_update_cycles_cached:
  assumes "effect_list s \<noteq> []"
      and "\<forall>c \<in> set cs. \<exists>cur. get_current_effect c = Inr cur"
  shows "\<exists>s'. async_update_cycles k cs s = Inr s'
      \<and> effect_list s' = effect_list s
      \<and> executor_jobs s' = executor_jobs s @ replicate (length cs) GetCurrentEffect"
  using assms
proof (induction cs arbitrary: s)
  case Nil
  then show ?case by simp
next
  case (Cons c cs)
  from Cons.prems(2) obtain cur where cur: "get_current_effect c = Inr cur"
    by auto
  let ?s1 = "s\<lparr> executor_jobs := executor_jobs s @ [GetCurrentEffect],
                effect := Some (attributes_name cur),
                is_on := (attributes_name cur \<noteq> ALL_OFF_EFFECT k) \<rparr>"
  have step: "async_update k c s = Inr ?s1"
    using Cons.prems(1) cur by (rule async_update_cached)
  have ne: "effect_list ?s1 \<noteq> []"
    using Cons.prems(1) by simp
  have rest: "\<forall>c \<in> set cs. \<exists>cur. get_current_effect c = Inr cur"
    using Cons.prems(2) by simp
  from Cons.IH [OF ne rest] obtain s' where
    run: "async_update_cycles k cs ?s1 = Inr s'"
    and el: "effect_list s' = effect_list ?s1"
    and jobs: "executor_jobs s' = executor_jobs ?s1 @ replicate (length cs) GetCurrentEffect"
    by auto
  from step run have "async_update_cycles k (c # cs) s = Inr s'"
    by simp
  moreover from el have "effect_list s' = effect_list s"
    by simp
  moreover from jobs have "executor_jobs s' = executor_jobs s @ replicate (length (c # cs)) GetCurrentEffect"
    by simp
  ultimately show ?case
    by blast
qed

text \<open>
  C1. The list of available effects is populated only while it is empty. An update that
  starts with an empty list caches the names the client lists. From a non-empty list,
  any run of later update cycles leaves the list as it is and hands one job per cycle to
  the executor, the poll of the current effect: the effects are not listed again,
  whatever the client would answer (an empty list, another list, a failure).
\<close>

theorem effect_list_populated_only_when_empty:
  "(effect_list s = [] \<longrightarrow> get_effects c = Inr effects \<longrightarrow> get_current_effect c = Inr cur \<longrightarrow>
      (\<exists>s1. async_update k c s = Inr s1
          \<and> effect_list s1 = map attributes_name effects))
   \<and> (effect_list s \<noteq> [] \<longrightarrow> (\<forall>c' \<in> set cs. \<exists>cur'. get_current_effect c' = Inr cur') \<longrightarrow>
      (\<exists>s2. async_update_cycles k cs s = Inr s2
          \<and> effect_list s2 = effect_list s
          \<and> executor_jobs s2 = executor_jobs s @ replicate (length cs) GetCurrentEffect))"
proof (intro conjI impI)
  assume "effect_list s = []" "get_effects c = Inr effects" "get_current_effect c = Inr cur"
  then show "\<exists>s1. async_update k c s = Inr s1 \<and> effect_list s1 = map attributes_name effects"
    by (simp add: async_update_def)
next
  assume "effect_list s \<noteq> []" "\<forall>c' \<in> set cs. \<exists>cur'. get_current_effect c' = Inr cur'"
  then show "\<exists>s2. async_update_cycles k cs s = Inr s2
          \<and> effect_list s2 = effect_list s
          \<and> executor_jobs s2 = executor_jobs s @ replicate (length cs) GetCurrentEffect"
    by (rule async_update_cycles_cached)
qed

theorem effect_list_witness:
  "\<exists>s1 s2. async_update sample_const sample_client sample_light = Inr s1
     \<and> effect_list s1 = [''Test Effect'']
     \<and> get_effects sample_client_later = Inr []
     \<and> async_update_cycles sample_const [sample_client_later, sample_client_later] s1 = Inr s2
     \<and> effect_list s2 = [''Test Effect'']
     \<and> executor_jobs s2 = executor_jobs s1 @ [GetCurrentEffect, GetCurrentEffect]"
proof -
  have a: "effect_list sample_light = []"
    by (simp add: sample_light_def)
  have b: "get_effects sample_client = Inr [Effect ''Test Effect'']"
    by (simp add: sample_client_def)
  have c: "get_current_effect sample_client = Inr (Effect ''Test Effect'')"
    by (simp add: sample_client_def)
  from effect_list_populated_only_when_empty
         [where s = sample_light and c = sample_client and effects = "[Effect ''Test Effect'']"
            and cur = "Effect ''Test Effect''" and k = sample_const] a b c
  obtain s1 where s1: "async_update sample_const sample_client sample_light = Inr s1"
    and el1: "effect_list s1 = [''Test Effect'']"
    by auto
  have d: "effect_list s1 \<noteq> []"
    using el1 by simp
  have e: "\<forall>c' \<in> set [sample_client_later, sample_client_later].
             \<exists>cur'. get_current_effect c' = Inr cur'"
    by (simp add: sample_client_later_def)
  from effect_list_populated_only_when_empty
         [where s = s1 and cs = "[sample_client_later, sample_client_later]" and k = sample_const] d e
  obtain s2 where
    s2: "async_update_cycles sample_const [sample_client_later, sample_client_later] s1 = Inr s2"
    and el2: "effect_list s2 = effect_list s1"
    and j2: "executor_jobs s2
       = executor_jobs s1 @ replicate (length [sample_client_later, sample_client_later]) GetCurrentEffect"
    by blast
  have f: "get_effects sample_client_later = Inr []"
    by (simp add: sample_client_later_def)
  from j2 have j2': "executor_jobs s2 = executor_jobs s1 @ [GetCurrentEffect, GetCurrentEffect]"
    by (simp add: numeral_2_eq_2)
  from s1 el1 f s2 el2 j2' show ?thesis
    by auto
qed

text \<open>
  C2. An update cycle that completes sets the on-state by the current effect the client
  reported: false when its name is the all-off sentinel, true for any other name. The
  cycle completes when the client answers the poll of the current effect and, while the
  cached list is empty, the listing of the effects.
\<close>

theorem update_sets_on_state:
  assumes "get_current_effect c = Inr cur"
      and "effect_list s \<noteq> [] \<or> (\<exists>effects. get_effects c = Inr effects)"
  shows "\<exists>s'. async_update k c s = Inr s'
      \<and> is_on s' = (attributes_name cur \<noteq> ALL_OFF_EFFECT k)
      \<and> effect s' = Some (attributes_name cur)"
  using assms by (auto simp add: async_update_def)

theorem update_sets_on_state_witness:
  "(\<exists>s'. async_update sample_const sample_client sample_light = Inr s' \<and> is_on s'
          \<and> effect s' = Some ''Test Effect'')
   \<and> (\<exists>s'. async_update sample_const sample_client_later sample_light = Inr s' \<and> \<not> is_on s'
          \<and> effect s' = Some ''All Off'')"
  using update_sets_on_state [of sample_client "Effect ''Test Effect''" sample_light sample_const]
    update_sets_on_state [of sample_client_later "Effect ''All Off''" sample_light sample_const]
  by (simp add: sample_client_def sample_client_later_def sample_const_def)

text \<open>
  C3. Turning the light on, from any state and with a vendor call that returns, leaves
  the on-state true and hands exactly one job to the executor: the application of the
  default effect name.
\<close>

theorem turn_on_applies_default_effect:
  assumes "apply_effect_by_name c (DEFAULT_EFFECT k) = Inr ()"
  shows "\<exists>s'. async_turn_on k c s = Inr s' \<and> is_on s'
     \<and> executor_jobs s' = executor_jobs s @ [ApplyEffectByName (DEFAULT_EFFECT k)]"
  using assms by (simp add: async_turn_on_def apply_effect_def)

theorem turn_on_witness:
  "\<exists>s'. async_turn_on sample_const sample_client sample_light = Inr s' \<and> is_on s'
     \<and> executor_jobs s' = [ApplyEffectByName ''Default'']"
  using turn_on_applies_default_effect [of sample_client sample_const sample_light]
  by (simp add: sample_client_def sample_const_def sample_light_def)

text \<open>
  C4. Turning the light off, from any state and with a vendor call that returns, leaves
  the on-state false and hands exactly one job to the executor: the application of the
  all-off effect name.
\<close>

theorem turn_off_applies_all_off_effect:
  assumes "apply_effect_by_name c (ALL_OFF_EFFECT k) = Inr ()"
  shows "\<exists>s'. async_turn_off k c s = Inr s' \<and> \<not> is_on s'
     \<and> executor_jobs s' = executor_jobs s @ [ApplyEffectByName (ALL_OFF_EFFECT k)]"
  using assms by (simp add: async_turn_off_def apply_effect_def)

theorem turn_off_witness:
  "\<exists>s'. async_turn_off sample_const sample_client (sample_light\<lparr> is_on := True \<rparr>) = Inr s'
     \<and> \<not> is_on s' \<and> executor_jobs s' = [ApplyEffectByName ''All Off'']"
  using turn_off_applies_all_off_effect
          [of sample_client sample_const "sample_light\<lparr> is_on := True \<rparr>"]
  by (simp add: sample_client_def sample_const_def sample_light_def)

text \<open>
  C5. Applying an effect by name, with a vendor call that returns, sets the effect
  attribute to that name and hands exactly one job to the executor, the application of
  that name: the current effect is not polled to confirm it.
\<close>

theorem apply_effect_sets_effect:
  assumes "apply_effect_by_name c name = Inr ()"
  shows "\<exists>s'. apply_effect c s name = Inr s' \<and> effect s' = Some name
     \<and> executor_jobs s' = executor_jobs s @ [ApplyEffectByName name]"
  using assms by (simp add: apply_effect_def)

theorem apply_effect_witness:
  "\<exists>s'. apply_effect sample_client sample_light ''Test Effect'' = Inr s'
     \<and> effect s' = Some ''Test Effect''
     \<and> executor_jobs s' = [ApplyEffectByName ''Test Effect'']"
  using apply_effect_sets_effect [of sample_client "''Test Effect''" sample_light]
  by (simp add: sample_client_def sample_light_def)

end
